theory Spec2Isabelle
  imports Complex_Main "HOL-Library.Multiset"
begin

section \<open>The ledger of \<^verbatim>\<open>app.py\<close>\<close>

text \<open>
  The program is a Flask application over two SQLAlchemy tables, \<^verbatim>\<open>User\<close> and
  \<^verbatim>\<open>Transaction\<close>. An account's balance is never stored: every handler that needs it
  sums the account's transaction rows. The handlers that write rows are \<^verbatim>\<open>signup\<close>,
  \<^verbatim>\<open>deposit\<close>, \<^verbatim>\<open>withdraw\<close>, \<^verbatim>\<open>transfer\<close>, \<^verbatim>\<open>betting\<close> and \<^verbatim>\<open>internet\<close>.

  Each handler is modelled on its POST branch as a function from the database before the
  request, the logged-in user and the form fields to the response and the database after
  the request. The clock (\<^verbatim>\<open>datetime.utcnow\<close>, the column default of \<^verbatim>\<open>date\<close>) and the
  random account number of \<^verbatim>\<open>signup\<close> are inputs.

  Amounts are Python floats in the source (\<^verbatim>\<open>db.Float\<close>, \<^verbatim>\<open>float(...)\<close>). They are
  modelled as \<^typ>\<open>real\<close>: arithmetic is exact, so rounding, infinities and NaN are outside
  the model.
\<close>

subsection \<open>Database models\<close>

text \<open>
  \<^verbatim>\<open>class User\<close>. The columns \<^verbatim>\<open>password\<close>, \<^verbatim>\<open>profile_pic\<close>, \<^verbatim>\<open>first_name\<close>,
  \<^verbatim>\<open>last_name\<close>, \<^verbatim>\<open>dob\<close>, \<^verbatim>\<open>bvn\<close> and \<^verbatim>\<open>company_name\<close> are stored and read back
  by the profile pages only; no handler that touches the transaction table reads them, and
  they are left out.
\<close>

record user =
  uid :: nat
  account_type :: string
  username :: "string option"
  email :: string
  account_number :: string

text \<open>\<^verbatim>\<open>class Transaction\<close>.\<close>

record transaction =
  txn_id :: nat
  user_id :: nat
  txn_type :: string
  amount :: real
  date :: nat
  description :: string

text \<open>The two tables, rows in insertion order.\<close>

record database =
  users :: "user list"
  transactions :: "transaction list"

text \<open>
  An integer primary key without a value gets the largest key of the table plus one
  (one in an empty table).
\<close>

definition next_id :: "nat list \<Rightarrow> nat" where
  "next_id ids = Suc (fold max ids 0)"

text \<open>
  \<^verbatim>\<open>Transaction(user_id=..., txn_type=..., amount=..., description=...)\<close> followed by
  \<^verbatim>\<open>db.session.add\<close>; the row gets its key and its \<^verbatim>\<open>date\<close> when it is inserted.
\<close>

definition add_transaction ::
  "database \<Rightarrow> nat \<Rightarrow> string \<Rightarrow> real \<Rightarrow> nat \<Rightarrow> string \<Rightarrow> database" where
  "add_transaction db u ty a now d =
     db\<lparr>transactions := transactions db @
        [\<lparr>txn_id = next_id (map txn_id (transactions db)), user_id = u, txn_type = ty,
          amount = a, date = now, description = d\<rparr>]\<rparr>"

text \<open>
  The relationship \<^verbatim>\<open>User.transactions\<close> (and the query
  \<^verbatim>\<open>Transaction.query.filter_by(user_id=...)\<close>): the rows of one user.
\<close>

definition user_transactions :: "database \<Rightarrow> nat \<Rightarrow> transaction list" where
  "user_transactions db u = filter (\<lambda>tx. user_id tx = u) (transactions db)"

text \<open>\<^verbatim>\<open>User.query.filter_by(account_number=target_account).first()\<close>; a missing form
  field is \<^verbatim>\<open>None\<close> and matches no row, the column being \<^verbatim>\<open>nullable=False\<close>.\<close>

definition find_by_account_number :: "database \<Rightarrow> string option \<Rightarrow> user option" where
  "find_by_account_number db target_account =
     (case target_account of
        None \<Rightarrow> None
      | Some n \<Rightarrow> find (\<lambda>u. account_number u = n) (users db))"

subsection \<open>Balance derivation\<close>

text \<open>
  The expression shared by \<^verbatim>\<open>withdraw\<close>, \<^verbatim>\<open>transfer\<close> and \<^verbatim>\<open>betting\<close>:
  \<^verbatim>\<open>sum(tx.amount if tx.txn_type == "Deposit" else -tx.amount for tx in current_user.transactions)\<close>.
  \<^verbatim>\<open>sum\<close> starts at zero and adds from left to right.
\<close>

definition signed_amount :: "transaction \<Rightarrow> real" where
  "signed_amount tx = (if txn_type tx = ''Deposit'' then amount tx else - amount tx)"

definition balance :: "transaction list \<Rightarrow> real" where
  "balance txs = fold (\<lambda>tx acc. acc + signed_amount tx) txs 0"



text \<open>The balance of an account as the money handlers compute it.\<close>

definition compute_balance :: "database \<Rightarrow> nat \<Rightarrow> real" where
  "compute_balance db u = balance (user_transactions db u)"

subsection \<open>Responses\<close>

text \<open>
  What a handler answers. The source flashes a message and redirects; the constructors
  name the messages:
  \<^item> \<open>InvalidAmount\<close>: "Invalid amount" (\<^verbatim>\<open>float(...)\<close> raised \<^verbatim>\<open>TypeError\<close> or \<^verbatim>\<open>ValueError\<close>);
  \<^item> \<open>InsufficientFunds\<close>: "Insufficient funds!" and "Insufficient funds to fund betting account.";
  \<^item> \<open>RecipientNotFound\<close>: "Recipient account not found!";
  \<^item> \<open>MissingFields\<close>: "All fields are required." and "Please provide email and password.";
  \<^item> \<open>PasswordMismatch\<close>, \<open>EmailTaken\<close>, \<open>InvalidAccountType\<close>: the other rejections of \<^verbatim>\<open>signup\<close>;
  \<^item> \<open>ServerError\<close>: an exception that no handler catches (nothing is committed);
  \<^item> \<open>Success\<close>: the success message and the redirect that follows the commit.
\<close>

datatype response =
    InvalidAmount
  | InsufficientFunds
  | RecipientNotFound
  | MissingFields
  | PasswordMismatch
  | EmailTaken
  | InvalidAccountType
  | ServerError
  | Success

subsection \<open>Form fields\<close>

text \<open>\<^verbatim>\<open>not x\<close> on a form field: the field is missing or empty.\<close>

definition falsy :: "string option \<Rightarrow> bool" where
  "falsy x = (case x of None \<Rightarrow> True | Some s \<Rightarrow> s = [])"

text \<open>A form field inside an f-string: a missing field prints as \<^verbatim>\<open>None\<close>.\<close>

definition format_field :: "string option \<Rightarrow> string" where
  "format_field x = (case x of None \<Rightarrow> ''None'' | Some s \<Rightarrow> s)"

subsection \<open>The money handlers\<close>

text \<open>
  In each handler the argument \<open>form_amount\<close> is the outcome of
  \<^verbatim>\<open>float(request.form.get("amount"))\<close>: \<open>None\<close> when it raises, the number otherwise.
  No handler looks at the sign of the number.
\<close>

definition deposit :: "database \<Rightarrow> user \<Rightarrow> real option \<Rightarrow> nat \<Rightarrow> response \<times> database" where
  "deposit db current_user form_amount now =
     (case form_amount of
        None \<Rightarrow> (InvalidAmount, db)
      | Some a \<Rightarrow>
          (Success, add_transaction db (uid current_user) ''Deposit'' a now ''Manual deposit''))"

definition withdraw :: "database \<Rightarrow> user \<Rightarrow> real option \<Rightarrow> nat \<Rightarrow> response \<times> database" where
  "withdraw db current_user form_amount now =
     (case form_amount of
        None \<Rightarrow> (InvalidAmount, db)
      | Some a \<Rightarrow>
          if a > balance (user_transactions db (uid current_user)) then (InsufficientFunds, db)
          else (Success,
                add_transaction db (uid current_user) ''Withdrawal'' a now ''Cash withdrawal''))"

text \<open>
  \<^verbatim>\<open>transfer\<close> adds the sender's row and the recipient's row to the session and
  commits once; both rows get the clock reading of that commit. The recipient is looked up
  after the amount is read and before the balance is computed.
\<close>

definition transfer ::
  "database \<Rightarrow> user \<Rightarrow> string option \<Rightarrow> real option \<Rightarrow> nat \<Rightarrow> response \<times> database" where
  "transfer db current_user target_account form_amount now =
     (case form_amount of
        None \<Rightarrow> (InvalidAmount, db)
      | Some a \<Rightarrow>
          (case find_by_account_number db target_account of
             None \<Rightarrow> (RecipientNotFound, db)
           | Some recipient \<Rightarrow>
               if a > balance (user_transactions db (uid current_user))
               then (InsufficientFunds, db)
               else (Success,
                     add_transaction
                       (add_transaction db (uid current_user) ''Transfer'' a now
                          (''Transfer to '' @ account_number recipient))
                       (uid recipient) ''Deposit'' a now
                       (''Transfer from '' @ account_number current_user))))"

definition betting ::
  "database \<Rightarrow> user \<Rightarrow> string option \<Rightarrow> string option \<Rightarrow> real option \<Rightarrow> nat
     \<Rightarrow> response \<times> database" where
  "betting db current_user company account_id form_amount now =
     (case form_amount of
        None \<Rightarrow> (InvalidAmount, db)
      | Some a \<Rightarrow>
          if a > balance (user_transactions db (uid current_user)) then (InsufficientFunds, db)
          else (Success,
                add_transaction db (uid current_user) ''Betting Funding'' a now
                  (''Funded '' @ format_field company @ '' account ('' @
                   format_field account_id @ '')'')))"

text \<open>
  \<^verbatim>\<open>internet\<close> takes the amount out of the bundle label:
  \<^verbatim>\<open>float(bundle.split("\<dots>")[-1].replace(",", "").strip())\<close>, after the last currency
  sign. The argument \<open>bundle_amount\<close> is the outcome of that expression, \<open>None\<close> when
  \<^verbatim>\<open>float\<close> raises; the handler does not catch the exception. There is no balance
  check in this handler.
\<close>

definition internet ::
  "database \<Rightarrow> user \<Rightarrow> string option \<Rightarrow> string option \<Rightarrow> string option \<Rightarrow> real option \<Rightarrow> nat
     \<Rightarrow> response \<times> database" where
  "internet db current_user phone_number bundle payment_method bundle_amount now =
     (if falsy phone_number \<or> falsy bundle \<or> falsy payment_method then (MissingFields, db)
      else
        (case bundle_amount of
           None \<Rightarrow> (ServerError, db)
         | Some a \<Rightarrow>
             (Success,
              add_transaction db (uid current_user) ''Data Purchase'' a now
                (''Bought '' @ format_field bundle @ '' for '' @ format_field phone_number @
                 '' on '' @ format_field payment_method))))"

subsection \<open>Opening an account\<close>

text \<open>
  The fields of the signup form that reach the modelled columns. \<^verbatim>\<open>request.form.get\<close>
  gives \<^verbatim>\<open>None\<close> for a field that is not in the form.
\<close>

record signup_form =
  form_account_type :: "string option"
  form_email :: "string option"
  form_password :: "string option"
  form_confirm_password :: "string option"
  form_username :: "string option"

text \<open>\<^verbatim>\<open>x or "user"\<close> and \<^verbatim>\<open>x or None\<close>.\<close>

definition or_default :: "string option \<Rightarrow> string \<Rightarrow> string" where
  "or_default x d = (case x of None \<Rightarrow> d | Some s \<Rightarrow> if s = [] then d else s)"

definition or_none :: "string option \<Rightarrow> string option" where
  "or_none x = (case x of None \<Rightarrow> None | Some s \<Rightarrow> if s = [] then None else Some s)"

text \<open>
  The columns \<^verbatim>\<open>username\<close>, \<^verbatim>\<open>email\<close> and \<^verbatim>\<open>account_number\<close> are declared
  \<^verbatim>\<open>unique=True\<close>: the commit of a row that repeats a value raises, and nothing is
  written. A \<^verbatim>\<open>NULL\<close> username repeats nothing.
\<close>

definition violates_unique :: "database \<Rightarrow> user \<Rightarrow> bool" where
  "violates_unique db new_user =
     (account_number new_user \<in> set (map account_number (users db))
      \<or> email new_user \<in> set (map email (users db))
      \<or> (username new_user \<noteq> None \<and> username new_user \<in> set (map username (users db))))"

text \<open>
  \<^verbatim>\<open>signup\<close>. The argument \<open>random_account_number\<close> is
  \<^verbatim>\<open>str(random.randint(100000000000, 999999999999))\<close>. The handler commits the user row,
  then adds the welcome deposit of \<^verbatim>\<open>1000.0\<close> for the new user's key and commits again.
\<close>

definition signup :: "database \<Rightarrow> signup_form \<Rightarrow> string \<Rightarrow> nat \<Rightarrow> response \<times> database" where
  "signup db form random_account_number now =
     (let account_type' = or_default (form_account_type form) ''user'' in
      if falsy (form_email form) \<or> falsy (form_password form) then (MissingFields, db)
      else if \<not> falsy (form_confirm_password form)
              \<and> form_password form \<noteq> form_confirm_password form
      then (PasswordMismatch, db)
      else if find (\<lambda>u. Some (email u) = form_email form) (users db) \<noteq> None
      then (EmailTaken, db)
      else if account_type' \<noteq> ''user'' \<and> account_type' \<noteq> ''merchant''
      then (InvalidAccountType, db)
      else
        let new_user =
              \<lparr>uid = next_id (map uid (users db)), account_type = account_type',
               username = or_none (form_username form),
               email = format_field (form_email form),
               account_number = random_account_number\<rparr>
        in if violates_unique db new_user then (ServerError, db)
           else (Success,
                 add_transaction (db\<lparr>users := users db @ [new_user]\<rparr>) (uid new_user)
                   ''Deposit'' 1000 now ''Welcome bonus''))"

subsection \<open>Properties of a database\<close>

text \<open>Every transaction row belongs to a user row (the foreign key \<^verbatim>\<open>user.id\<close>).\<close>

definition transactions_owned :: "database \<Rightarrow> bool" where
  "transactions_owned db =
     list_all (\<lambda>tx. user_id tx \<in> set (map uid (users db))) (transactions db)"

text \<open>Account numbers are unique (the column constraint).\<close>

definition unique_account_numbers :: "database \<Rightarrow> bool" where
  "unique_account_numbers db = distinct (map account_number (users db))"


subsection \<open>A small database\<close>

text \<open>Two accounts right after their signup, each with its welcome deposit.\<close>

definition alice :: user where
  "alice = \<lparr>uid = 1, account_type = ''user'', username = None,
            email = ''alice@example.com'', account_number = ''100000000001''\<rparr>"

definition bob :: user where
  "bob = \<lparr>uid = 2, account_type = ''merchant'', username = Some ''bob'',
          email = ''bob@example.com'', account_number = ''100000000002''\<rparr>"

definition ledger0 :: database where
  "ledger0 =
     \<lparr>users = [alice, bob],
      transactions =
        [\<lparr>txn_id = 1, user_id = 1, txn_type = ''Deposit'', amount = 1000, date = 1,
          description = ''Welcome bonus''\<rparr>,
         \<lparr>txn_id = 2, user_id = 2, txn_type = ''Deposit'', amount = 1000, date = 2,
          description = ''Welcome bonus''\<rparr>]\<rparr>"

definition empty_database :: database where
  "empty_database = \<lparr>users = [], transactions = []\<rparr>"

definition alice_form :: signup_form where
  "alice_form =
     \<lparr>form_account_type = None, form_email = Some ''alice@example.com'',
      form_password = Some ''secret'', form_confirm_password = Some ''secret'',
      form_username = None\<rparr>"

section \<open>Balance derivation\<close>

lemma fold_signed_amount:
  "fold (\<lambda>tx acc. acc + signed_amount tx) txs s = s + sum_list (map signed_amount txs)"
  by (induction txs arbitrary: s) simp_all

lemma balance_sum_list: "balance txs = sum_list (map signed_amount txs)"
  by (simp add: balance_def fold_signed_amount)





section \<open>Appending a row\<close>

lemma transactions_add_transaction:
  "transactions (add_transaction db u ty a now d) =
     transactions db @
       [\<lparr>txn_id = next_id (map txn_id (transactions db)), user_id = u, txn_type = ty,
         amount = a, date = now, description = d\<rparr>]"
  by (simp add: add_transaction_def)

lemma users_add_transaction: "users (add_transaction db u ty a now d) = users db"
  by (simp add: add_transaction_def)

lemma user_transactions_add_other:
  "v \<noteq> u \<Longrightarrow> user_transactions (add_transaction db u ty a now d) v = user_transactions db v"
  by (simp add: user_transactions_def add_transaction_def)

lemma user_transactions_add_same:
  "user_transactions (add_transaction db u ty a now d) u =
     user_transactions db u @
       [\<lparr>txn_id = next_id (map txn_id (transactions db)), user_id = u, txn_type = ty,
         amount = a, date = now, description = d\<rparr>]"
  by (simp add: user_transactions_def add_transaction_def)


lemma compute_balance_add_same:
  "compute_balance (add_transaction db u ty a now d) u =
     compute_balance db u + (if ty = ''Deposit'' then a else - a)"
  by (simp add: compute_balance_def user_transactions_add_same balance_sum_list
      signed_amount_def)

lemma ledger0_balance_alice: "compute_balance ledger0 (uid alice) = 1000"
  by (simp add: compute_balance_def user_transactions_def balance_def signed_amount_def
      ledger0_def alice_def)

lemma ledger0_balance_bob: "compute_balance ledger0 (uid bob) = 1000"
  by (simp add: compute_balance_def user_transactions_def balance_def signed_amount_def
      ledger0_def bob_def)

section \<open>Funds checks\<close>

lemma withdraw_insufficient:
  "a > compute_balance db (uid cu) \<Longrightarrow> withdraw db cu (Some a) now = (InsufficientFunds, db)"
  by (simp add: withdraw_def compute_balance_def)

lemma betting_insufficient:
  "a > compute_balance db (uid cu) \<Longrightarrow>
     betting db cu company account_id (Some a) now = (InsufficientFunds, db)"
  by (simp add: betting_def compute_balance_def)

text \<open>
  C2. The claim: \<^verbatim>\<open>withdraw\<close> and both funding handlers (Betting Funding and Data
  Purchase) append nothing and answer \<open>InsufficientFunds\<close> when the amount is strictly
  greater than the derived balance. \<^verbatim>\<open>withdraw\<close> and \<^verbatim>\<open>betting\<close> do so
  (\<open>withdraw_insufficient\<close>, \<open>betting_insufficient\<close>). \<^verbatim>\<open>internet\<close> has no funds
  check: on an account whose balance is 1000, a Data Purchase of 5000 succeeds, a row is
  appended, and the balance becomes -4000.
\<close>

theorem internet_overdraws:
  "compute_balance ledger0 (uid alice) = 1000
   \<and> fst (internet ledger0 alice (Some ''08012345678'') (Some ''5000'') (Some ''wallet'')
            (Some 5000) 7) = Success
   \<and> transactions (snd (internet ledger0 alice (Some ''08012345678'') (Some ''5000'')
                          (Some ''wallet'') (Some 5000) 7)) =
       transactions ledger0 @
         [\<lparr>txn_id = 3, user_id = 1, txn_type = ''Data Purchase'', amount = 5000, date = 7,
           description = ''Bought 5000 for 08012345678 on wallet''\<rparr>]
   \<and> compute_balance (snd (internet ledger0 alice (Some ''08012345678'') (Some ''5000'')
                            (Some ''wallet'') (Some 5000) 7)) (uid alice) = - 4000"
proof -
  have r: "internet ledger0 alice (Some ''08012345678'') (Some ''5000'') (Some ''wallet'')
             (Some 5000) 7 =
           (Success, add_transaction ledger0 1 ''Data Purchase'' 5000 7
                       ''Bought 5000 for 08012345678 on wallet'')"
    by (simp add: internet_def falsy_def format_field_def alice_def)
  have n: "next_id (map txn_id (transactions ledger0)) = 3"
    by (simp add: next_id_def ledger0_def)
  have u: "uid alice = 1"
    by (simp add: alice_def)
  show ?thesis
    using ledger0_balance_alice compute_balance_add_same [of ledger0 1 "''Data Purchase''" 5000 7]
    by (simp add: r n u transactions_add_transaction)
qed

section \<open>Transfers\<close>

lemma transfer_success:
  assumes "find_by_account_number db target = Some recipient"
    and "a \<le> compute_balance db (uid cu)"
  shows "transfer db cu target (Some a) now =
           (Success,
            add_transaction
              (add_transaction db (uid cu) ''Transfer'' a now
                 (''Transfer to '' @ account_number recipient))
              (uid recipient) ''Deposit'' a now (''Transfer from '' @ account_number cu))"
  using assms by (simp add: transfer_def compute_balance_def)



lemma transfer_appends_none_or_two:
  "\<exists>new. transactions (snd (transfer db cu target form_amount now)) = transactions db @ new
     \<and> (new = [] \<or> length new = 2)"
  by (simp add: transfer_def transactions_add_transaction split: option.split)




section \<open>Amounts and validation\<close>






section \<open>Failed requests\<close>

lemma deposit_failure:
  "fst (deposit db cu form_amount now) \<noteq> Success \<longrightarrow> snd (deposit db cu form_amount now) = db"
  by (simp add: deposit_def split: option.split)

lemma withdraw_failure:
  "fst (withdraw db cu form_amount now) \<noteq> Success \<longrightarrow> snd (withdraw db cu form_amount now) = db"
  by (simp add: withdraw_def split: option.split)

lemma transfer_failure:
  "fst (transfer db cu target form_amount now) \<noteq> Success \<longrightarrow>
     snd (transfer db cu target form_amount now) = db"
  by (simp add: transfer_def split: option.split)

lemma betting_failure:
  "fst (betting db cu company account_id form_amount now) \<noteq> Success \<longrightarrow>
     snd (betting db cu company account_id form_amount now) = db"
  by (simp add: betting_def split: option.split)

lemma internet_failure:
  "fst (internet db cu phone_number bundle payment_method bundle_amount now) \<noteq> Success \<longrightarrow>
     snd (internet db cu phone_number bundle payment_method bundle_amount now) = db"
  by (simp add: internet_def split: option.split)

lemma signup_failure:
  "fst (signup db form random_account_number now) \<noteq> Success \<longrightarrow>
     snd (signup db form random_account_number now) = db"
  by (simp add: signup_def Let_def)

lemma transfer_recipient_not_found:
  "find_by_account_number db target = None \<Longrightarrow>
     transfer db cu target (Some a) now = (RecipientNotFound, db)"
  by (simp add: transfer_def)

text \<open>
  C5. Every operation that fails validation (\<open>InvalidAmount\<close>, \<open>InsufficientFunds\<close>,
  \<open>RecipientNotFound\<close>; indeed every answer other than \<open>Success\<close>) leaves the database as
  it was: no row is appended and every account's derived balance is the same. In
  particular a transfer to an account number that no account has is answered with
  \<open>RecipientNotFound\<close> and changes no balance.
\<close>

theorem failure_leaves_ledger_unchanged:
  "(fst (deposit db cu form_amount now) \<noteq> Success \<longrightarrow>
      snd (deposit db cu form_amount now) = db)
   \<and> (fst (withdraw db cu form_amount now) \<noteq> Success \<longrightarrow>
      snd (withdraw db cu form_amount now) = db)
   \<and> (fst (transfer db cu target form_amount now) \<noteq> Success \<longrightarrow>
      snd (transfer db cu target form_amount now) = db)
   \<and> (fst (betting db cu company account_id form_amount now) \<noteq> Success \<longrightarrow>
      snd (betting db cu company account_id form_amount now) = db)
   \<and> (fst (internet db cu phone_number bundle payment_method bundle_amount now) \<noteq> Success \<longrightarrow>
      snd (internet db cu phone_number bundle payment_method bundle_amount now) = db)
   \<and> (fst (signup db form random_account_number now) \<noteq> Success \<longrightarrow>
      snd (signup db form random_account_number now) = db)
   \<and> (find_by_account_number db target = None \<longrightarrow>
        fst (transfer db cu target (Some a) now) = RecipientNotFound
        \<and> transactions (snd (transfer db cu target (Some a) now)) = transactions db
        \<and> (\<forall>u. compute_balance (snd (transfer db cu target (Some a) now)) u =
                 compute_balance db u))"
  using deposit_failure [of db cu form_amount now] withdraw_failure [of db cu form_amount now]
    transfer_failure [of db cu target form_amount now]
    betting_failure [of db cu company account_id form_amount now]
    internet_failure [of db cu phone_number "bundle" payment_method bundle_amount now]
    signup_failure [of db form random_account_number now]
    transfer_recipient_not_found [of db target cu a now]
  by (intro conjI) simp_all

theorem failure_leaves_ledger_unchanged_witness:
  "fst (withdraw ledger0 alice (Some 2000) 7) = InsufficientFunds
   \<and> snd (withdraw ledger0 alice (Some 2000) 7) = ledger0
   \<and> find_by_account_number ledger0 (Some ''999999999999'') = None
   \<and> fst (transfer ledger0 alice (Some ''999999999999'') (Some 100) 7) = RecipientNotFound
   \<and> compute_balance (snd (transfer ledger0 alice (Some ''999999999999'') (Some 100) 7))
        (uid bob) = compute_balance ledger0 (uid bob)"
proof -
  have w: "fst (withdraw ledger0 alice (Some 2000) 7) = InsufficientFunds"
    using ledger0_balance_alice by (simp add: withdraw_def compute_balance_def)
  have f: "find_by_account_number ledger0 (Some ''999999999999'') = None"
    by (simp add: find_by_account_number_def ledger0_def alice_def bob_def)
  note t = failure_leaves_ledger_unchanged
    [of ledger0 alice "Some 2000" 7 "Some ''999999999999''" None None None None None None
      alice_form "''0''" 100]
  have w': "fst (withdraw ledger0 alice (Some 2000) 7) \<noteq> Success"
    by (simp add: w)
  have "snd (withdraw ledger0 alice (Some 2000) 7) = ledger0"
    using t w' by blast
  moreover have "fst (transfer ledger0 alice (Some ''999999999999'') (Some 100) 7) = RecipientNotFound
     \<and> compute_balance (snd (transfer ledger0 alice (Some ''999999999999'') (Some 100) 7))
        (uid bob) = compute_balance ledger0 (uid bob)"
    using t f by blast
  ultimately show ?thesis
    using w f by blast
qed

section \<open>Opening an account\<close>

lemma next_id_fresh: "x \<in> set ids \<Longrightarrow> x < next_id ids"
proof -
  assume x: "x \<in> set ids"
  have "fold max ids 0 = Max (set (0 # ids))"
    by (simp only: Max.set_eq_fold)
  moreover have "x \<le> Max (set (0 # ids))"
    using x by (intro Max_ge) simp_all
  ultimately show ?thesis
    by (simp add: next_id_def)
qed

lemma owned_no_rows_of_next_id:
  assumes "transactions_owned db"
  shows "filter (\<lambda>tx. user_id tx = next_id (map uid (users db))) (transactions db) = []"
proof -
  have "user_id tx \<noteq> next_id (map uid (users db))" if "tx \<in> set (transactions db)" for tx
  proof -
    have "user_id tx \<in> set (map uid (users db))"
      using assms that by (simp add: transactions_owned_def list_all_iff)
    then show ?thesis
      using next_id_fresh [of "user_id tx" "map uid (users db)"] by simp
  qed
  then show ?thesis
    by (simp add: filter_empty_conv)
qed

lemma signup_success:
  "fst (signup db form random_account_number now) = Success \<longrightarrow>
     snd (signup db form random_account_number now) =
       add_transaction
         (db\<lparr>users := users db @
            [\<lparr>uid = next_id (map uid (users db)),
              account_type = or_default (form_account_type form) ''user'',
              username = or_none (form_username form),
              email = format_field (form_email form),
              account_number = random_account_number\<rparr>]\<rparr>)
         (next_id (map uid (users db))) ''Deposit'' 1000 now ''Welcome bonus''"
  by (simp add: signup_def Let_def)

text \<open>
  C6. For every freshly opened account, \<^verbatim>\<open>signup\<close> appends exactly one seed Deposit
  row of the fixed welcome amount 1000.0 with description "Welcome bonus", so the
  account's derived balance right after opening is exactly 1000. (The new account gets a
  fresh key; the rows already stored belong to the users already stored.)
\<close>

theorem signup_welcome_bonus:
  assumes "transactions_owned db"
    and "fst (signup db form random_account_number now) = Success"
  shows "map uid (users (snd (signup db form random_account_number now))) =
           map uid (users db) @ [next_id (map uid (users db))]
    \<and> map account_number (users (snd (signup db form random_account_number now))) =
        map account_number (users db) @ [random_account_number]
    \<and> transactions (snd (signup db form random_account_number now)) =
        transactions db @
          [\<lparr>txn_id = next_id (map txn_id (transactions db)),
            user_id = next_id (map uid (users db)), txn_type = ''Deposit'', amount = 1000,
            date = now, description = ''Welcome bonus''\<rparr>]
    \<and> user_transactions (snd (signup db form random_account_number now))
          (next_id (map uid (users db))) =
          [\<lparr>txn_id = next_id (map txn_id (transactions db)),
            user_id = next_id (map uid (users db)), txn_type = ''Deposit'', amount = 1000,
            date = now, description = ''Welcome bonus''\<rparr>]
    \<and> compute_balance (snd (signup db form random_account_number now))
          (next_id (map uid (users db))) = 1000"
proof -
  note s = signup_success [rule_format, OF assms(2)]
  note e = owned_no_rows_of_next_id [OF assms(1)]
  show ?thesis
    by (simp add: s add_transaction_def user_transactions_def compute_balance_def e
        balance_def signed_amount_def)
qed

theorem signup_welcome_bonus_witness:
  "transactions_owned empty_database
   \<and> fst (signup empty_database alice_form ''100000000001'' 1) = Success
   \<and> transactions (snd (signup empty_database alice_form ''100000000001'' 1)) =
       [\<lparr>txn_id = 1, user_id = 1, txn_type = ''Deposit'', amount = 1000, date = 1,
         description = ''Welcome bonus''\<rparr>]
   \<and> compute_balance (snd (signup empty_database alice_form ''100000000001'' 1)) 1 = 1000"
proof -
  have o: "transactions_owned empty_database"
    by (simp add: transactions_owned_def empty_database_def)
  have s: "fst (signup empty_database alice_form ''100000000001'' 1) = Success"
    by (simp add: signup_def Let_def empty_database_def alice_form_def falsy_def
        or_default_def or_none_def format_field_def violates_unique_def)
  have n: "next_id (map uid (users empty_database)) = 1"
    "transactions empty_database = []" "next_id [] = 1"
    by (simp_all add: next_id_def empty_database_def)
  from signup_welcome_bonus [OF o s] o s show ?thesis
    by (simp add: n)
qed

section \<open>Transfers to the sender's own account number\<close>





section \<open>Order of the checks in a transfer\<close>

lemma find_by_account_number_users_only:
  "find_by_account_number (db\<lparr>transactions := txs\<rparr>) target = find_by_account_number db target"
  by (cases target) (simp_all add: find_by_account_number_def)

text \<open>
  C8. In \<^verbatim>\<open>transfer\<close> the recipient is looked up before the sender's balance: for
  every call with a numeric amount whose recipient account number resolves to no account,
  the answer is \<open>RecipientNotFound\<close>, never \<open>InsufficientFunds\<close>, also when the amount
  exceeds the sender's derived balance; the answer is the same whatever rows the
  transaction table holds, so the sender's balance is not consulted.
\<close>

theorem recipient_checked_before_balance:
  assumes "find_by_account_number db target = None"
  shows "transfer db cu target (Some a) now = (RecipientNotFound, db)
    \<and> fst (transfer db cu target (Some a) now) \<noteq> InsufficientFunds
    \<and> (\<forall>txs. fst (transfer (db\<lparr>transactions := txs\<rparr>) cu target (Some a) now) =
                RecipientNotFound)"
  using assms by (simp add: transfer_def find_by_account_number_users_only)

theorem recipient_checked_before_balance_witness:
  "find_by_account_number ledger0 (Some ''999999999999'') = None
   \<and> (5000::real) > compute_balance ledger0 (uid alice)
   \<and> transfer ledger0 alice (Some ''999999999999'') (Some 5000) 7 = (RecipientNotFound, ledger0)"
proof -
  have f: "find_by_account_number ledger0 (Some ''999999999999'') = None"
    by (simp add: find_by_account_number_def ledger0_def alice_def bob_def)
  from recipient_checked_before_balance [OF f, of alice 5000 7] f show ?thesis
    by (simp add: ledger0_balance_alice)
qed

section \<open>Other accounts\<close>

text \<open>
  C9. Each of \<^verbatim>\<open>deposit\<close>, \<^verbatim>\<open>withdraw\<close> and the funding handlers (\<^verbatim>\<open>betting\<close>,
  \<^verbatim>\<open>internet\<close>) appends its single new row to the invoking account only: for every other
  account the transaction list, and so the derived balance, is unchanged.
\<close>

theorem other_accounts_untouched:
  assumes "u \<noteq> uid cu"
  shows "user_transactions (snd (deposit db cu form_amount now)) u = user_transactions db u
    \<and> compute_balance (snd (deposit db cu form_amount now)) u = compute_balance db u
    \<and> user_transactions (snd (withdraw db cu form_amount now)) u = user_transactions db u
    \<and> compute_balance (snd (withdraw db cu form_amount now)) u = compute_balance db u
    \<and> user_transactions (snd (betting db cu company account_id form_amount now)) u =
        user_transactions db u
    \<and> compute_balance (snd (betting db cu company account_id form_amount now)) u =
        compute_balance db u
    \<and> user_transactions
        (snd (internet db cu phone_number bundle payment_method bundle_amount now)) u =
        user_transactions db u
    \<and> compute_balance
        (snd (internet db cu phone_number bundle payment_method bundle_amount now)) u =
        compute_balance db u"
proof -
  have d: "user_transactions (snd (deposit db cu form_amount now)) u = user_transactions db u"
    using assms by (simp add: deposit_def user_transactions_add_other split: option.split)
  have w: "user_transactions (snd (withdraw db cu form_amount now)) u = user_transactions db u"
    using assms by (simp add: withdraw_def user_transactions_add_other split: option.split)
  have b: "user_transactions (snd (betting db cu company account_id form_amount now)) u =
      user_transactions db u"
    using assms by (simp add: betting_def user_transactions_add_other split: option.split)
  have i: "user_transactions
      (snd (internet db cu phone_number bundle payment_method bundle_amount now)) u =
      user_transactions db u"
    using assms by (simp add: internet_def user_transactions_add_other split: option.split)
  show ?thesis
    by (simp add: compute_balance_def d w b i)
qed

theorem other_accounts_untouched_witness:
  "uid bob \<noteq> uid alice
   \<and> fst (withdraw ledger0 alice (Some 300) 7) = Success
   \<and> user_transactions (snd (withdraw ledger0 alice (Some 300) 7)) (uid bob) =
       user_transactions ledger0 (uid bob)
   \<and> compute_balance (snd (withdraw ledger0 alice (Some 300) 7)) (uid bob) = 1000"
proof -
  have ne: "uid bob \<noteq> uid alice"
    by (simp add: alice_def bob_def)
  have s: "fst (withdraw ledger0 alice (Some 300) 7) = Success"
    using ledger0_balance_alice by (simp add: withdraw_def compute_balance_def)
  from other_accounts_untouched [OF ne, of ledger0 "Some 300" 7] ne s show ?thesis
    by (simp add: ledger0_balance_bob)
qed

section \<open>Descriptions\<close>

text \<open>
  C10. \<^verbatim>\<open>deposit\<close> and \<^verbatim>\<open>withdraw\<close> read no description from the request: whatever
  the inputs, a committed deposit appends one Deposit row with the description
  "Manual deposit" and a committed withdrawal appends one Withdrawal row with the
  description "Cash withdrawal".
\<close>

theorem fixed_descriptions:
  "(fst (deposit db cu form_amount now) = Success \<longrightarrow>
      (\<exists>txn. transactions (snd (deposit db cu form_amount now)) = transactions db @ [txn]
         \<and> txn_type txn = ''Deposit'' \<and> description txn = ''Manual deposit''))
   \<and> (fst (withdraw db cu form_amount now) = Success \<longrightarrow>
      (\<exists>txn. transactions (snd (withdraw db cu form_amount now)) = transactions db @ [txn]
         \<and> txn_type txn = ''Withdrawal'' \<and> description txn = ''Cash withdrawal''))"
  by (simp add: deposit_def withdraw_def transactions_add_transaction split: option.split)

theorem fixed_descriptions_witness:
  "fst (deposit ledger0 alice (Some 50) 7) = Success
   \<and> fst (withdraw ledger0 alice (Some 50) 7) = Success
   \<and> map description (transactions (snd (deposit ledger0 alice (Some 50) 7))) =
       [''Welcome bonus'', ''Welcome bonus'', ''Manual deposit'']
   \<and> map description (transactions (snd (withdraw ledger0 alice (Some 50) 7))) =
       [''Welcome bonus'', ''Welcome bonus'', ''Cash withdrawal'']"
proof -
  have d: "fst (deposit ledger0 alice (Some 50) 7) = Success"
    by (simp add: deposit_def)
  have w: "fst (withdraw ledger0 alice (Some 50) 7) = Success"
    using ledger0_balance_alice by (simp add: withdraw_def compute_balance_def)
  have t: "map description (transactions ledger0) = [''Welcome bonus'', ''Welcome bonus'']"
    by (simp add: ledger0_def)
  from fixed_descriptions [of ledger0 alice "Some 50" 7] d w show ?thesis
    by (auto simp add: t)
qed

section \<open>The properties of a database are kept\<close>

lemma transactions_owned_add_transaction:
  "transactions_owned db \<Longrightarrow> u \<in> set (map uid (users db)) \<Longrightarrow>
     transactions_owned (add_transaction db u ty a now d)"
  by (simp add: transactions_owned_def add_transaction_def)

lemma find_by_account_number_member:
  "find_by_account_number db target = Some recipient \<Longrightarrow> recipient \<in> set (users db)"
  by (cases target) (auto simp: find_by_account_number_def find_Some_iff)

lemma transactions_owned_empty: "transactions_owned empty_database"
  by (simp add: transactions_owned_def empty_database_def)

lemma transactions_owned_deposit:
  "transactions_owned db \<Longrightarrow> cu \<in> set (users db) \<Longrightarrow>
     transactions_owned (snd (deposit db cu form_amount now))"
  by (simp add: deposit_def transactions_owned_add_transaction split: option.split)

lemma transactions_owned_withdraw:
  "transactions_owned db \<Longrightarrow> cu \<in> set (users db) \<Longrightarrow>
     transactions_owned (snd (withdraw db cu form_amount now))"
  by (simp add: withdraw_def transactions_owned_add_transaction split: option.split)

lemma transactions_owned_betting:
  "transactions_owned db \<Longrightarrow> cu \<in> set (users db) \<Longrightarrow>
     transactions_owned (snd (betting db cu company account_id form_amount now))"
  by (simp add: betting_def transactions_owned_add_transaction split: option.split)

lemma transactions_owned_internet:
  "transactions_owned db \<Longrightarrow> cu \<in> set (users db) \<Longrightarrow>
     transactions_owned
       (snd (internet db cu phone_number bundle payment_method bundle_amount now))"
  by (simp add: internet_def transactions_owned_add_transaction split: option.split)

lemma transactions_owned_transfer:
  assumes "transactions_owned db" and "cu \<in> set (users db)"
  shows "transactions_owned (snd (transfer db cu target form_amount now))"
proof (cases "fst (transfer db cu target form_amount now) = Success")
  case False
  then show ?thesis
    using assms(1) transfer_failure [of db cu target form_amount now] by simp
next
  case True
  then obtain a recipient where a: "form_amount = Some a"
    and r: "find_by_account_number db target = Some recipient"
    and b: "a \<le> compute_balance db (uid cu)"
    by (auto simp: transfer_def compute_balance_def split: option.splits if_splits)
  have "uid recipient \<in> set (map uid (users db))"
    using find_by_account_number_member [OF r] by simp
  then show ?thesis
    using assms
    by (simp add: a transfer_success [OF r b] transactions_owned_add_transaction
        users_add_transaction)
qed

lemma transactions_owned_signup:
  assumes "transactions_owned db"
  shows "transactions_owned (snd (signup db form random_account_number now))"
proof (cases "fst (signup db form random_account_number now) = Success")
  case False
  then show ?thesis
    using assms signup_failure [of db form random_account_number now] by simp
next
  case True
  have "transactions_owned (db\<lparr>users := users db @ [nu]\<rparr>)" for nu
    using assms by (auto simp: transactions_owned_def list_all_iff)
  then show ?thesis
    by (simp add: signup_success [rule_format, OF True] transactions_owned_add_transaction)
qed

lemma unique_account_numbers_signup:
  assumes "unique_account_numbers db"
  shows "unique_account_numbers (snd (signup db form random_account_number now))"
proof (cases "fst (signup db form random_account_number now) = Success")
  case False
  then show ?thesis
    using assms signup_failure [of db form random_account_number now] by simp
next
  case True
  then have "random_account_number \<notin> set (map account_number (users db))"
    by (auto simp: signup_def Let_def violates_unique_def split: if_splits)
  then show ?thesis
    using assms
    by (simp add: signup_success [rule_format, OF True] unique_account_numbers_def
        users_add_transaction)
qed

end
